theory Spec2Isabelle
  imports Main "HOL-Library.Sublist"
begin

section \<open>Python values used by \<open>models.py\<close>\<close>

text \<open>
  The constructors of \<open>models.py\<close> test the runtime type of their arguments with
  \<open>isinstance\<close>, so an argument is a tagged Python value. A \<open>str\<close> is a HOL string (the
  code points 0 to 255), an \<open>int\<close> is unbounded, and a \<open>float\<close> is a sign, a mantissa and
  a binary exponent: \<open>FNum s m e\<close> stands for \<open>(-1)^s * m * 2^e\<close>. The IEEE doubles are
  the values with \<open>m < 2^53\<close> and \<open>-1074 \<le> e \<le> 971\<close>, together with the two infinities
  and not-a-number.
\<close>

datatype pyfloat = FNum bool nat int | FInf bool | FNaN

datatype pyval =
    PNone
  | PBool bool
  | PInt int
  | PFloat pyfloat
  | PStr string
  | PBytes string
  | PList "pyval list"

datatype error =
    TypeError string
  | ValueError
  | OverflowError
  | AttributeError

text \<open>\<open>isinstance(x, str)\<close>, \<open>isinstance(x, (float, int))\<close> (a \<open>bool\<close> is an \<open>int\<close>) and
  \<open>isinstance(x, (bool, str))\<close>.\<close>

fun is_str :: "pyval \<Rightarrow> bool" where
  "is_str (PStr s) = True"
| "is_str v = False"

fun is_number :: "pyval \<Rightarrow> bool" where
  "is_number (PFloat f) = True"
| "is_number (PInt n) = True"
| "is_number (PBool b) = True"
| "is_number v = False"

fun is_bool_or_str :: "pyval \<Rightarrow> bool" where
  "is_bool_or_str (PBool b) = True"
| "is_bool_or_str (PStr s) = True"
| "is_bool_or_str v = False"

text \<open>\<open>x == s\<close> for a string literal \<open>s\<close>: only an equal \<open>str\<close> compares equal.\<close>

fun py_eq_str :: "pyval \<Rightarrow> string \<Rightarrow> bool" where
  "py_eq_str (PStr t) s = (t = s)"
| "py_eq_str v s = False"

text \<open>
  \<open>x if x else None\<close> where \<open>x\<close> has passed \<open>isinstance(x, str)\<close>: the empty string is
  falsy. The attribute then holds a \<open>str\<close> or \<open>None\<close>, a \<open>string option\<close>.
\<close>

fun str_or_none :: "pyval \<Rightarrow> string option" where
  "str_or_none (PStr s) = (if s \<noteq> [] then Some s else None)"
| "str_or_none v = None"

subsection \<open>Decimal digits\<close>

definition digit_char :: "nat \<Rightarrow> char" where
  "digit_char d = ''0123456789'' ! d"

definition is_digit :: "char \<Rightarrow> bool" where
  "is_digit c = (c \<in> set ''0123456789'')"

definition digit_val :: "char \<Rightarrow> nat" where
  "digit_val c = of_char c - 48"

fun show_nat :: "nat \<Rightarrow> string" where
  "show_nat n = (if n < 10 then [digit_char n] else show_nat (n div 10) @ [digit_char (n mod 10)])"

declare show_nat.simps [simp del]

text \<open>The last \<open>k\<close> decimal digits of \<open>n\<close>, zero padded.\<close>

fun pad_nat :: "nat \<Rightarrow> nat \<Rightarrow> string" where
  "pad_nat 0 n = []"
| "pad_nat (Suc k) n = pad_nat k (n div 10) @ [digit_char (n mod 10)]"

subsection \<open>\<open>float(x)\<close> and the format specification \<open>.kf\<close>\<close>

fun bit_length :: "nat \<Rightarrow> nat" where
  "bit_length n = (if n = 0 then 0 else Suc (bit_length (n div 2)))"

declare bit_length.simps [simp del]

text \<open>Division of \<open>a\<close> by \<open>d\<close> rounded to the nearest integer, ties to even.\<close>

definition round_half_even :: "nat \<Rightarrow> nat \<Rightarrow> nat" where
  "round_half_even a d =
     (let q = a div d; r = a mod d
      in if d < 2 * r \<or> (2 * r = d \<and> odd q) then q + 1 else q)"

text \<open>
  \<open>float(n)\<close> for an \<open>int\<close>: exact up to 53 bits, otherwise rounded to 53 bits (ties to
  even); a result of \<open>2^1024\<close> or more raises \<open>OverflowError\<close>.
\<close>

definition float_of_int :: "int \<Rightarrow> error + pyfloat" where
  "float_of_int n =
     (let a = nat \<bar>n\<bar>; l = bit_length a
      in if l \<le> 53 then Inr (FNum (n < 0) a 0)
         else let sh = l - 53; m = round_half_even a (2 ^ sh)
              in if 2 ^ 1024 \<le> m * 2 ^ sh then Inl OverflowError
                 else Inr (FNum (n < 0) m (int sh)))"

text \<open>
  \<open>float(x)\<close> where \<open>x\<close> has passed \<open>isinstance(x, (float, int))\<close>. No other argument
  reaches the call in \<open>models.py\<close>; they are given the \<open>TypeError\<close> of \<open>float(None)\<close>.
\<close>

fun py_float :: "pyval \<Rightarrow> error + pyfloat" where
  "py_float (PFloat f) = Inr f"
| "py_float (PInt n) = float_of_int n"
| "py_float (PBool b) = float_of_int (if b then 1 else 0)"
| "py_float v = Inl (TypeError ''float() argument must be a string or a real number'')"

text \<open>
  \<open>format(f, '.kf')\<close> for a float: the exact value rounded to \<open>k\<close> decimals, ties to
  even; the sign is kept also when the digits are all zero.
\<close>

fun float_format_f :: "nat \<Rightarrow> pyfloat \<Rightarrow> string" where
  "float_format_f k FNaN = ''nan''"
| "float_format_f k (FInf s) = (if s then ''-inf'' else ''inf'')"
| "float_format_f k (FNum s m e) =
     (let n = (if 0 \<le> e then m * 10 ^ k * 2 ^ nat e
               else round_half_even (m * 10 ^ k) (2 ^ nat (- e)))
      in (if s then ''-'' else '''') @ show_nat (n div 10 ^ k)
         @ (if k = 0 then '''' else ''.'' @ pad_nat k n))"

text \<open>
  \<open>format(x, '.kf')\<close>: an \<open>int\<close> (so a \<open>bool\<close> too) is converted to \<open>float\<close> first, which
  can overflow; a \<open>str\<close> rejects the format code and the other types reject any format
  specification.
\<close>

fun format_f :: "nat \<Rightarrow> pyval \<Rightarrow> error + string" where
  "format_f k (PFloat f) = Inr (float_format_f k f)"
| "format_f k (PInt n) =
     (case float_of_int n of Inl e \<Rightarrow> Inl e | Inr f \<Rightarrow> Inr (float_format_f k f))"
| "format_f k (PBool b) =
     (case float_of_int (if b then 1 else 0) of Inl e \<Rightarrow> Inl e
      | Inr f \<Rightarrow> Inr (float_format_f k f))"
| "format_f k (PStr s) = Inl ValueError"
| "format_f k v = Inl (TypeError ''unsupported format string passed to __format__'')"

subsection \<open>\<open>str\<close> and \<open>repr\<close> of the attribute values\<close>

text \<open>\<open>f'{x}'\<close> for an attribute that holds a \<open>str\<close> or \<open>None\<close>.\<close>

fun py_str_opt :: "string option \<Rightarrow> string" where
  "py_str_opt None = ''None''"
| "py_str_opt (Some s) = s"

definition hex_digit :: "nat \<Rightarrow> char" where
  "hex_digit d = ''0123456789abcdef'' ! d"

text \<open>The code points below 256 that \<open>repr\<close> prints as they are.\<close>

definition py_printable :: "char \<Rightarrow> bool" where
  "py_printable c =
     (let n = (of_char c :: nat) in (32 \<le> n \<and> n < 127) \<or> (161 \<le> n \<and> n \<noteq> 173))"

text \<open>One character of \<open>repr(s)\<close>, inside the quote character \<open>q\<close>.\<close>

definition repr_char :: "char \<Rightarrow> char \<Rightarrow> string" where
  "repr_char q c =
     (if c = q \<or> c = CHR 0x5C then [CHR 0x5C, c]
      else if c = CHR 0x09 then [CHR 0x5C, CHR ''t'']
      else if c = CHR 0x0A then [CHR 0x5C, CHR ''n'']
      else if c = CHR 0x0D then [CHR 0x5C, CHR ''r'']
      else if py_printable c then [c]
      else [CHR 0x5C, CHR ''x'', hex_digit ((of_char c :: nat) div 16),
            hex_digit ((of_char c :: nat) mod 16)])"

text \<open>
  \<open>repr(s)\<close> for a \<open>str\<close>: single quotes, unless \<open>s\<close> has a single quote and no double
  quote.
\<close>

definition py_repr_str :: "string \<Rightarrow> string" where
  "py_repr_str s =
     (let q = (if CHR 0x27 \<in> set s \<and> CHR 0x22 \<notin> set s then CHR 0x22 else CHR 0x27)
      in [q] @ concat (map (repr_char q) s) @ [q])"

fun py_repr_opt :: "string option \<Rightarrow> string" where
  "py_repr_opt None = ''None''"
| "py_repr_opt (Some s) = py_repr_str s"

definition py_repr_bool :: "bool \<Rightarrow> string" where
  "py_repr_bool b = (if b then ''True'' else ''False'')"

section \<open>The collaborators \<open>cd_to_datetime\<close> and \<open>datetime_to_str\<close>\<close>

text \<open>
  \<open>models.py\<close> imports both functions from \<open>helpers\<close>. A timestamp has minute
  precision.
\<close>

record datetime =
  year :: nat
  month :: nat
  day :: nat
  hour :: nat
  minute :: nat

definition leap_year :: "nat \<Rightarrow> bool" where
  "leap_year y = (y mod 4 = 0 \<and> (y mod 100 \<noteq> 0 \<or> y mod 400 = 0))"

definition days_in_month :: "nat \<Rightarrow> nat \<Rightarrow> nat" where
  "days_in_month y m =
     (if m = 2 then (if leap_year y then 29 else 28)
      else if m = 4 \<or> m = 6 \<or> m = 9 \<or> m = 11 then 30 else 31)"

definition valid_datetime :: "datetime \<Rightarrow> bool" where
  "valid_datetime dt =
     (1 \<le> year dt \<and> 1 \<le> month dt \<and> month dt \<le> 12 \<and> 1 \<le> day dt
      \<and> day dt \<le> days_in_month (year dt) (month dt) \<and> hour dt < 24 \<and> minute dt < 60)"

definition num_of_digits :: "string \<Rightarrow> nat" where
  "num_of_digits ds = foldl (\<lambda>a c. 10 * a + digit_val c) 0 ds"

text \<open>
  Modelled from the spec: \<open>helpers.cd_to_datetime\<close> is not among the sources. The spec
  has it accept a string in the fixed format \<open>YYYY-MM-DD HH:MM\<close> (24-hour, no seconds),
  return a calendar timestamp, and fail on malformed input.
\<close>

fun cd_to_datetime :: "string \<Rightarrow> error + datetime" where
  "cd_to_datetime [y1, y2, y3, y4, s1, m1, m2, s2, d1, d2, s3, h1, h2, s4, n1, n2] =
     (if list_all is_digit [y1, y2, y3, y4, m1, m2, d1, d2, h1, h2, n1, n2]
         \<and> s1 = CHR ''-'' \<and> s2 = CHR ''-'' \<and> s3 = CHR '' '' \<and> s4 = CHR '':''
      then let dt = \<lparr>year = num_of_digits [y1, y2, y3, y4], month = num_of_digits [m1, m2],
                     day = num_of_digits [d1, d2], hour = num_of_digits [h1, h2],
                     minute = num_of_digits [n1, n2]\<rparr>
           in if valid_datetime dt then Inr dt else Inl ValueError
      else Inl ValueError)"
| "cd_to_datetime s = Inl ValueError"

text \<open>
  Modelled from the spec: \<open>helpers.datetime_to_str\<close> is not among the sources. The spec
  has it render a timestamp in the format \<open>YYYY-MM-DD HH:MM\<close>, without seconds.
\<close>

definition datetime_to_str :: "datetime \<Rightarrow> string" where
  "datetime_to_str dt =
     pad_nat 4 (year dt) @ ''-'' @ pad_nat 2 (month dt) @ ''-'' @ pad_nat 2 (day dt)
     @ '' '' @ pad_nat 2 (hour dt) @ '':'' @ pad_nat 2 (minute dt)"

section \<open>The classes of \<open>models.py\<close>\<close>

text \<open>
  An object is the tuple of its attributes. The two classes refer to each other
  (\<open>approaches\<close> and \<open>neo\<close>); a reference is modelled by the value it points to, which
  is what the methods below read: none of them follows \<open>approaches\<close>. The private
  attribute \<open>_designation\<close> is \<open>private_designation\<close>.
\<close>

datatype NearEarthObject =
  NearEarthObject
    (designation: "string option")
    (name: "string option")
    (diameter: pyval)
    (hazardous: bool)
    (approaches: "CloseApproach list")
and CloseApproach =
  CloseApproach
    (private_designation: "string option")
    (time: "datetime option")
    (distance: pyfloat)
    (velocity: pyfloat)
    (neo: "NearEarthObject option")

definition quoted :: "string \<Rightarrow> string" where
  "quoted s = [CHR 0x27] @ s @ [CHR 0x27]"

subsection \<open>\<open>NearEarthObject\<close>\<close>

definition NearEarthObject_init ::
  "pyval \<Rightarrow> pyval \<Rightarrow> pyval \<Rightarrow> pyval \<Rightarrow> error + NearEarthObject" where
  "NearEarthObject_init designation0 name0 diameter0 hazardous0 =
     (if \<not> is_str designation0 then Inl (TypeError (quoted ''designation'' @ '' must be a string.''))
      else if \<not> is_str name0 then Inl (TypeError (quoted ''name'' @ '' must be a string.''))
      else if \<not> is_number diameter0 then Inl (TypeError (quoted ''diameter'' @ '' must be a number.''))
      else if \<not> is_bool_or_str hazardous0
        then Inl (TypeError (quoted ''hazardous'' @ '' must be True/False.''))
      else Inr (NearEarthObject (str_or_none designation0) (str_or_none name0) diameter0
                  (py_eq_str hazardous0 ''Y'') []))"

text \<open>\<open>if self.name\<close>: \<open>None\<close> and the empty string are falsy.\<close>

definition fullname :: "NearEarthObject \<Rightarrow> string" where
  "fullname self =
     (if (case name self of None \<Rightarrow> False | Some n \<Rightarrow> n \<noteq> [])
      then py_str_opt (designation self) @ '' ('' @ py_str_opt (name self) @ '')''
      else py_str_opt (designation self))"

definition NearEarthObject_str :: "NearEarthObject \<Rightarrow> error + string" where
  "NearEarthObject_str self =
     (case format_f 3 (diameter self) of
        Inl e \<Rightarrow> Inl e
      | Inr d \<Rightarrow>
          if hazardous self
          then Inr (''NEO '' @ fullname self @ '' has a diameter of '' @ d
                    @ '' km and is potentially hazardous.'')
          else Inr (''NEO '' @ fullname self @ '' has a diameter of '' @ d
                    @ '' km and is not potentially hazardous.''))"

definition NearEarthObject_repr :: "NearEarthObject \<Rightarrow> error + string" where
  "NearEarthObject_repr self =
     (case format_f 3 (diameter self) of
        Inl e \<Rightarrow> Inl e
      | Inr d \<Rightarrow>
          Inr (''NearEarthObject(self.designation='' @ py_repr_opt (designation self)
               @ '', self.name='' @ py_repr_opt (name self)
               @ '', self.diameter='' @ d
               @ '', self.hazardous='' @ py_repr_bool (hazardous self) @ '')''))"

subsection \<open>\<open>CloseApproach\<close>\<close>

text \<open>\<open>cd_to_datetime(time) if time else None\<close>, where \<open>time\<close> has passed
  \<open>isinstance(time, str)\<close>.\<close>

fun time_or_none :: "pyval \<Rightarrow> error + datetime option" where
  "time_or_none (PStr s) =
     (if s \<noteq> [] then (case cd_to_datetime s of Inl e \<Rightarrow> Inl e | Inr t \<Rightarrow> Inr (Some t))
      else Inr None)"
| "time_or_none v = Inr None"

definition CloseApproach_init ::
  "pyval \<Rightarrow> pyval \<Rightarrow> pyval \<Rightarrow> pyval \<Rightarrow> NearEarthObject option \<Rightarrow> error + CloseApproach" where
  "CloseApproach_init designation0 time0 distance0 velocity0 neo0 =
     (if \<not> is_str designation0 then Inl (TypeError (quoted ''designation'' @ '' must be a string.''))
      else if \<not> is_str time0
        then Inl (TypeError (quoted ''time'' @ '' must be a string in the following format; ''
                             @ quoted ''yyyy-mm-dd HH:MM'' @ ''.''))
      else if \<not> is_number velocity0 then Inl (TypeError (quoted ''velocity'' @ '' must be a number.''))
      else if \<not> is_number distance0 then Inl (TypeError (quoted ''distance'' @ '' must be a number.''))
      else case time_or_none time0 of
             Inl e \<Rightarrow> Inl e
           | Inr t \<Rightarrow>
               (case py_float distance0 of
                  Inl e \<Rightarrow> Inl e
                | Inr d \<Rightarrow>
                    (case py_float velocity0 of
                       Inl e \<Rightarrow> Inl e
                     | Inr v \<Rightarrow> Inr (CloseApproach (str_or_none designation0) t d v neo0))))"

text \<open>\<open>datetime_to_str(self.time) if self.time else ''\<close>: a \<open>datetime\<close> is always truthy.\<close>

definition time_str :: "CloseApproach \<Rightarrow> string" where
  "time_str self = (case time self of None \<Rightarrow> [] | Some t \<Rightarrow> datetime_to_str t)"

text \<open>
  \<open>__str__\<close>: the replacement fields \<open>{self.distance=:.2f}\<close> and \<open>{self.velocity=:.2f}\<close>
  carry the specifier \<open>=\<close>, which prints the expression text and \<open>=\<close> before the value.
  \<open>self.neo.fullname\<close> raises \<open>AttributeError\<close> when \<open>neo\<close> is \<open>None\<close>.
\<close>

definition CloseApproach_str :: "CloseApproach \<Rightarrow> error + string" where
  "CloseApproach_str self =
     (case neo self of
        None \<Rightarrow> Inl AttributeError
      | Some n \<Rightarrow>
          Inr (''On '' @ time_str self @ '', '' @ quoted (fullname n)
               @ '' approaches Earth at a distance of self.distance=''
               @ float_format_f 2 (distance self)
               @ '' au and a velocity of self.velocity=''
               @ float_format_f 2 (velocity self) @ '' km/s.''))"

text \<open>\<open>__repr__\<close>: \<open>{self.neo!r}\<close> is \<open>None\<close> or the \<open>__repr__\<close> of the linked object.\<close>

definition CloseApproach_repr :: "CloseApproach \<Rightarrow> error + string" where
  "CloseApproach_repr self =
     (case (case neo self of None \<Rightarrow> Inr ''None'' | Some n \<Rightarrow> NearEarthObject_repr n) of
        Inl e \<Rightarrow> Inl e
      | Inr r \<Rightarrow>
          Inr (''CloseApproach(time='' @ py_repr_str (time_str self)
               @ '', distance='' @ float_format_f 2 (distance self)
               @ '', velocity='' @ float_format_f 2 (velocity self)
               @ '', neo='' @ r @ '')''))"

section \<open>The end-to-end example\<close>

text \<open>
  The object \<open>designation="433", name="Eros", diameter=16.84, hazardous="N"\<close> and its
  approach \<open>time="2020-06-01 00:00", distance=0.45, velocity=7.2\<close>; the three floats are
  the doubles nearest to the decimal literals.
\<close>

definition example_neo :: NearEarthObject where
  "example_neo =
     NearEarthObject (Some ''433'') (Some ''Eros'')
       (PFloat (FNum False 4740038607807447 (- 48))) False []"

definition example_approach :: CloseApproach where
  "example_approach =
     CloseApproach (Some ''433'')
       (Some \<lparr>year = 2020, month = 6, day = 1, hour = 0, minute = 0\<rparr>)
       (FNum False 8106479329266893 (- 54)) (FNum False 8106479329266893 (- 50))
       (Some example_neo)"

section \<open>Evaluation on numerals\<close>

text \<open>Equations that let the simplifier run the recursive functions on literals.\<close>

lemma show_nat_numeral:
  "show_nat (numeral k) =
     (if numeral k < (10::nat) then [digit_char (numeral k)]
      else show_nat (numeral k div 10) @ [digit_char (numeral k mod 10)])"
  by (rule show_nat.simps)

lemma show_nat_small: "show_nat 0 = ''0''" "show_nat 1 = ''1''" "show_nat (Suc 0) = ''1''"
  by (simp_all add: show_nat.simps digit_char_def)

lemma pad_nat_numeral:
  "pad_nat (numeral k) n = pad_nat (pred_numeral k) (n div 10) @ [digit_char (n mod 10)]"
proof -
  have "pad_nat (numeral k) n = pad_nat (Suc (pred_numeral k)) n"
    by (simp only: numeral_eq_Suc)
  then show ?thesis by (simp only: pad_nat.simps)
qed

lemma pad_nat_one: "pad_nat 1 n = [digit_char (n mod 10)]"
  by simp

lemma bit_length_numeral:
  "bit_length (numeral k) = Suc (bit_length (numeral k div 2))"
  by (subst bit_length.simps) simp

lemma bit_length_small: "bit_length 0 = 0" "bit_length 1 = 1" "bit_length (Suc 0) = 1"
  by (simp_all add: bit_length.simps)

lemmas eval_simps = show_nat_numeral show_nat_small pad_nat_numeral pad_nat_one
  bit_length_numeral bit_length_small digit_char_def round_half_even_def Let_def

lemma length_pad_nat: "length (pad_nat k n) = k"
  by (induction k arbitrary: n) simp_all

lemma length_datetime_to_str: "length (datetime_to_str t) = 16"
  by (simp add: datetime_to_str_def length_pad_nat)

lemma example_time:
  "cd_to_datetime ''2020-06-01 00:00''
     = Inr \<lparr>year = 2020, month = 6, day = 1, hour = 0, minute = 0\<rparr>"
  by (simp add: is_digit_def num_of_digits_def digit_val_def valid_datetime_def
      days_in_month_def)

lemma example_time_str:
  "datetime_to_str \<lparr>year = 2020, month = 6, day = 1, hour = 0, minute = 0\<rparr>
     = ''2020-06-01 00:00''"
  by (simp add: datetime_to_str_def eval_simps)

subsection \<open>Digits and zero padding\<close>

lemma digit_char_digit_val: "is_digit c \<Longrightarrow> digit_char (digit_val c) = c"
  unfolding is_digit_def by (auto simp: digit_char_def digit_val_def)

lemma digit_val_less: "is_digit c \<Longrightarrow> digit_val c < 10"
  unfolding is_digit_def by (auto simp: digit_val_def)

lemma num_of_digits_snoc: "num_of_digits (ds @ [c]) = 10 * num_of_digits ds + digit_val c"
  by (simp add: num_of_digits_def)

lemma pad_nat_num_of_digits:
  "list_all is_digit ds \<Longrightarrow> pad_nat (length ds) (num_of_digits ds) = ds"
proof (induction ds rule: rev_induct)
  case Nil
  show ?case by simp
next
  case (snoc c ds)
  then have c: "is_digit c" and ds: "pad_nat (length ds) (num_of_digits ds) = ds"
    by simp_all
  have v: "digit_val c < 10" using c by (rule digit_val_less)
  have "(10 * num_of_digits ds + digit_val c) div 10 = num_of_digits ds"
    and "(10 * num_of_digits ds + digit_val c) mod 10 = digit_val c"
    using v by simp_all
  then show ?case
    using c ds by (simp add: num_of_digits_snoc digit_char_digit_val)
qed

lemma pad_nat_4:
  assumes "list_all is_digit [a, b, c, d]"
  shows "pad_nat 4 (num_of_digits [a, b, c, d]) = [a, b, c, d]"
proof -
  have l: "length [a, b, c, d] = 4" by simp
  show ?thesis using pad_nat_num_of_digits [OF assms] unfolding l .
qed

lemma pad_nat_2:
  assumes "list_all is_digit [a, b]"
  shows "pad_nat 2 (num_of_digits [a, b]) = [a, b]"
proof -
  have l: "length [a, b] = 2" by simp
  show ?thesis using pad_nat_num_of_digits [OF assms] unfolding l .
qed

subsection \<open>The errors of the constructors' collaborators\<close>

lemma cd_to_datetime_error: "cd_to_datetime s = Inl e \<Longrightarrow> e = ValueError"
  by (cases s rule: cd_to_datetime.cases) (auto simp: Let_def split: if_splits)

lemma float_of_int_error: "float_of_int n = Inl e \<Longrightarrow> e = OverflowError"
  by (auto simp: float_of_int_def Let_def split: if_splits)

lemma py_float_error: "is_number v \<Longrightarrow> py_float v = Inl e \<Longrightarrow> e = OverflowError"
  by (cases v) (auto dest: float_of_int_error)

lemma time_or_none_error: "time_or_none v = Inl e \<Longrightarrow> e = ValueError"
  by (cases v) (auto split: if_splits sum.splits dest: cd_to_datetime_error)

lemma float_of_int_2_1024: "float_of_int (2 ^ 1024) = Inl OverflowError"
  by (simp add: float_of_int_def eval_simps)

lemma time_or_none_Inl_iff:
  "is_str v \<Longrightarrow>
     time_or_none v = Inl ValueError
     \<longleftrightarrow> (\<exists>s. v = PStr s \<and> s \<noteq> [] \<and> cd_to_datetime s = Inl ValueError)"
  by (cases v) (auto split: sum.splits dest: cd_to_datetime_error)

lemma time_or_none_Inr_iff:
  "is_str v \<Longrightarrow>
     (\<exists>t. time_or_none v = Inr t)
     \<longleftrightarrow> (\<exists>s. v = PStr s \<and> (s = [] \<or> (\<exists>dt. cd_to_datetime s = Inr dt)))"
  by (cases v) (auto split: sum.splits)

section \<open>The claims\<close>

subsection \<open>The hazardous flag\<close>

text \<open>
  C1. For every construction of a \<open>NearEarthObject\<close> that succeeds, the stored
  \<open>hazardous\<close> flag is true if and only if the raw input is the string \<open>Y\<close>; the
  inputs \<open>N\<close>, the empty string, \<open>True\<close> and \<open>False\<close> all give false.
\<close>

theorem hazardous_iff_Y:
  "NearEarthObject_init designation0 name0 diameter0 hazardous0 = Inr neo1 \<Longrightarrow>
     (hazardous neo1 \<longleftrightarrow> hazardous0 = PStr ''Y'')
     \<and> (hazardous0 = PStr ''N'' \<or> hazardous0 = PStr '''' \<or> hazardous0 = PBool True
          \<or> hazardous0 = PBool False \<longrightarrow> \<not> hazardous neo1)"
  by (cases hazardous0) (auto simp: NearEarthObject_init_def split: if_splits)

theorem hazardous_iff_Y_witness:
  "NearEarthObject_init (PStr ''433'') (PStr ''Eros'') (PFloat FNaN) (PStr ''Y'')
     = Inr (NearEarthObject (Some ''433'') (Some ''Eros'') (PFloat FNaN) True [])
   \<and> hazardous (NearEarthObject (Some ''433'') (Some ''Eros'') (PFloat FNaN) True [])
   \<and> NearEarthObject_init (PStr ''433'') (PStr ''Eros'') (PFloat FNaN) (PBool True)
     = Inr (NearEarthObject (Some ''433'') (Some ''Eros'') (PFloat FNaN) False [])
   \<and> \<not> hazardous (NearEarthObject (Some ''433'') (Some ''Eros'') (PFloat FNaN) False [])"
  using hazardous_iff_Y [of "PStr ''433''" "PStr ''Eros''" "PFloat FNaN" "PStr ''Y''"
      "NearEarthObject (Some ''433'') (Some ''Eros'') (PFloat FNaN) True []"]
    hazardous_iff_Y [of "PStr ''433''" "PStr ''Eros''" "PFloat FNaN" "PBool True"
      "NearEarthObject (Some ''433'') (Some ''Eros'') (PFloat FNaN) False []"]
  by (simp add: NearEarthObject_init_def)

subsection \<open>Empty strings become \<open>None\<close>\<close>

text \<open>
  C4. For every construction of a \<open>NearEarthObject\<close> that succeeds, the stored
  designation is \<open>None\<close> if and only if the raw designation was the empty string, the
  stored name is \<open>None\<close> if and only if the raw name was the empty string, and a
  non-empty input is stored unchanged.
\<close>

theorem empty_input_is_absent:
  "NearEarthObject_init designation0 name0 diameter0 hazardous0 = Inr neo1 \<Longrightarrow>
     \<exists>d n. designation0 = PStr d \<and> name0 = PStr n
       \<and> (designation neo1 = None \<longleftrightarrow> d = []) \<and> (d \<noteq> [] \<longrightarrow> designation neo1 = Some d)
       \<and> (name neo1 = None \<longleftrightarrow> n = []) \<and> (n \<noteq> [] \<longrightarrow> name neo1 = Some n)"
  by (cases designation0; cases name0) (auto simp: NearEarthObject_init_def split: if_splits)

theorem empty_input_is_absent_witness:
  "NearEarthObject_init (PStr '''') (PStr ''Eros'') (PFloat FNaN) (PStr ''N'')
     = Inr (NearEarthObject None (Some ''Eros'') (PFloat FNaN) False [])
   \<and> designation (NearEarthObject None (Some ''Eros'') (PFloat FNaN) False []) = None
   \<and> name (NearEarthObject None (Some ''Eros'') (PFloat FNaN) False []) = Some ''Eros''"
  using empty_input_is_absent [of "PStr ''''" "PStr ''Eros''" "PFloat FNaN" "PStr ''N''"
      "NearEarthObject None (Some ''Eros'') (PFloat FNaN) False []"]
  by (simp add: NearEarthObject_init_def)

subsection \<open>The full name\<close>

text \<open>
  C6. For every \<open>NearEarthObject\<close> that the constructor returns, \<open>fullname\<close> is the
  designation followed by the name in parentheses when the name is present, and the
  designation alone when the name is absent.
\<close>

theorem fullname_shape:
  "NearEarthObject_init designation0 name0 diameter0 hazardous0 = Inr neo1 \<Longrightarrow>
     (\<forall>n. name neo1 = Some n \<longrightarrow>
        fullname neo1 = py_str_opt (designation neo1) @ '' ('' @ n @ '')'')
     \<and> (name neo1 = None \<longrightarrow> fullname neo1 = py_str_opt (designation neo1))
     \<and> (\<forall>d. designation neo1 = Some d \<longrightarrow> py_str_opt (designation neo1) = d)"
  by (cases name0) (auto simp: NearEarthObject_init_def fullname_def split: if_splits)

theorem fullname_shape_witness:
  "NearEarthObject_init (PStr ''2015 CD3'') (PStr ''Bruce'') (PFloat FNaN) (PStr ''N'')
     = Inr (NearEarthObject (Some ''2015 CD3'') (Some ''Bruce'') (PFloat FNaN) False [])
   \<and> fullname (NearEarthObject (Some ''2015 CD3'') (Some ''Bruce'') (PFloat FNaN) False [])
     = ''2015 CD3 (Bruce)''
   \<and> NearEarthObject_init (PStr ''2015 CD3'') (PStr '''') (PFloat FNaN) (PStr ''N'')
     = Inr (NearEarthObject (Some ''2015 CD3'') None (PFloat FNaN) False [])
   \<and> fullname (NearEarthObject (Some ''2015 CD3'') None (PFloat FNaN) False [])
     = ''2015 CD3''"
  using fullname_shape [of "PStr ''2015 CD3''" "PStr ''Bruce''" "PFloat FNaN" "PStr ''N''"
      "NearEarthObject (Some ''2015 CD3'') (Some ''Bruce'') (PFloat FNaN) False []"]
    fullname_shape [of "PStr ''2015 CD3''" "PStr ''''" "PFloat FNaN" "PStr ''N''"
      "NearEarthObject (Some ''2015 CD3'') None (PFloat FNaN) False []"]
  by (simp add: NearEarthObject_init_def)

subsection \<open>The formatted time\<close>

text \<open>
  C7. For every \<open>CloseApproach\<close>, \<open>time_str\<close> is the string that \<open>datetime_to_str\<close>
  gives for the time (sixteen characters, to the minute) when the time is present, and
  the empty string when the time is absent.
\<close>

theorem time_str_cases:
  "(\<forall>t. time ca = Some t \<longrightarrow> time_str ca = datetime_to_str t \<and> length (time_str ca) = 16)
   \<and> (time ca = None \<longrightarrow> time_str ca = [])"
  by (simp add: time_str_def length_datetime_to_str)

theorem time_str_cases_witness:
  "CloseApproach_init (PStr ''433'') (PStr ''2020-06-01 00:00'') (PFloat FNaN) (PFloat FNaN) None
     = Inr (CloseApproach (Some ''433'')
              (Some \<lparr>year = 2020, month = 6, day = 1, hour = 0, minute = 0\<rparr>) FNaN FNaN None)
   \<and> time_str (CloseApproach (Some ''433'')
              (Some \<lparr>year = 2020, month = 6, day = 1, hour = 0, minute = 0\<rparr>) FNaN FNaN None)
     = ''2020-06-01 00:00''
   \<and> CloseApproach_init (PStr ''433'') (PStr '''') (PFloat FNaN) (PFloat FNaN) None
     = Inr (CloseApproach (Some ''433'') None FNaN FNaN None)
   \<and> time_str (CloseApproach (Some ''433'') None FNaN FNaN None) = ''''"
proof -
  have "time_or_none (PStr ''2020-06-01 00:00'')
      = Inr (Some \<lparr>year = 2020, month = 6, day = 1, hour = 0, minute = 0\<rparr>)"
    unfolding time_or_none.simps example_time by simp
  then have a: "CloseApproach_init (PStr ''433'') (PStr ''2020-06-01 00:00'') (PFloat FNaN)
      (PFloat FNaN) None
     = Inr (CloseApproach (Some ''433'')
              (Some \<lparr>year = 2020, month = 6, day = 1, hour = 0, minute = 0\<rparr>) FNaN FNaN None)"
    unfolding CloseApproach_init_def by simp
  have b: "CloseApproach_init (PStr ''433'') (PStr '''') (PFloat FNaN) (PFloat FNaN) None
     = Inr (CloseApproach (Some ''433'') None FNaN FNaN None)"
    by (simp add: CloseApproach_init_def)
  show ?thesis
    using a b example_time_str
      time_str_cases [of "CloseApproach (Some ''433'')
              (Some \<lparr>year = 2020, month = 6, day = 1, hour = 0, minute = 0\<rparr>) FNaN FNaN None"]
      time_str_cases [of "CloseApproach (Some ''433'') None FNaN FNaN None"]
    by simp
qed

subsection \<open>Parsing and formatting a time\<close>

text \<open>
  C8. For every string that \<open>cd_to_datetime\<close> accepts, formatting the parsed timestamp
  with \<open>datetime_to_str\<close> gives the string back; so a \<open>CloseApproach\<close> constructed from
  a time string has that string as its \<open>time_str\<close>.
\<close>

theorem parse_then_format:
  "(cd_to_datetime s = Inr dt \<longrightarrow> datetime_to_str dt = s)
   \<and> (CloseApproach_init designation0 (PStr s) distance0 velocity0 neo0 = Inr ca
        \<longrightarrow> time_str ca = s)"
proof -
  have rt: "datetime_to_str dt' = s" if r: "cd_to_datetime s = Inr dt'" for dt'
  proof (cases s rule: cd_to_datetime.cases)
    case (1 y1 y2 y3 y4 s1 m1 m2 s2 d1 d2 s3 h1 h2 s4 n1 n2)
    have digits: "list_all is_digit [y1, y2, y3, y4, m1, m2, d1, d2, h1, h2, n1, n2]"
      and seps: "s1 = CHR ''-''" "s2 = CHR ''-''" "s3 = CHR '' ''" "s4 = CHR '':''"
      and dt: "dt' = \<lparr>year = num_of_digits [y1, y2, y3, y4], month = num_of_digits [m1, m2],
                     day = num_of_digits [d1, d2], hour = num_of_digits [h1, h2],
                     minute = num_of_digits [n1, n2]\<rparr>"
      using r unfolding 1 cd_to_datetime.simps(1) Let_def by (simp_all split: if_splits)
    have "pad_nat 4 (year dt') = [y1, y2, y3, y4]" "pad_nat 2 (month dt') = [m1, m2]"
      "pad_nat 2 (day dt') = [d1, d2]" "pad_nat 2 (hour dt') = [h1, h2]"
      "pad_nat 2 (minute dt') = [n1, n2]"
      using digits unfolding dt by (simp_all add: pad_nat_4 pad_nat_2)
    then show ?thesis
      unfolding datetime_to_str_def 1 seps by simp
  qed (use r in simp_all)
  have "time_str ca = s"
    if c: "CloseApproach_init designation0 (PStr s) distance0 velocity0 neo0 = Inr ca"
  proof (cases "s = []")
    case True
    with c show ?thesis
      by (auto simp: CloseApproach_init_def time_str_def split: if_splits sum.splits)
  next
    case False
    with c obtain t where "cd_to_datetime s = Inr t" and "time ca = Some t"
      by (auto simp: CloseApproach_init_def split: if_splits sum.splits)
    then show ?thesis
      using rt by (simp add: time_str_def)
  qed
  with rt show ?thesis by blast
qed

theorem parse_then_format_witness:
  "cd_to_datetime ''2020-01-01 12:30''
     = Inr \<lparr>year = 2020, month = 1, day = 1, hour = 12, minute = 30\<rparr>
   \<and> datetime_to_str \<lparr>year = 2020, month = 1, day = 1, hour = 12, minute = 30\<rparr>
     = ''2020-01-01 12:30''
   \<and> CloseApproach_init (PStr ''433'') (PStr ''2020-01-01 12:30'') (PFloat FNaN) (PFloat FNaN)
       None
     = Inr (CloseApproach (Some ''433'')
         (Some \<lparr>year = 2020, month = 1, day = 1, hour = 12, minute = 30\<rparr>) FNaN FNaN None)
   \<and> time_str (CloseApproach (Some ''433'')
         (Some \<lparr>year = 2020, month = 1, day = 1, hour = 12, minute = 30\<rparr>) FNaN FNaN None)
     = ''2020-01-01 12:30''"
proof -
  have a: "cd_to_datetime ''2020-01-01 12:30''
     = Inr \<lparr>year = 2020, month = 1, day = 1, hour = 12, minute = 30\<rparr>"
    by (simp add: is_digit_def num_of_digits_def digit_val_def valid_datetime_def
        days_in_month_def)
  then have "time_or_none (PStr ''2020-01-01 12:30'')
      = Inr (Some \<lparr>year = 2020, month = 1, day = 1, hour = 12, minute = 30\<rparr>)"
    unfolding time_or_none.simps by simp
  then have b: "CloseApproach_init (PStr ''433'') (PStr ''2020-01-01 12:30'') (PFloat FNaN)
       (PFloat FNaN) None
     = Inr (CloseApproach (Some ''433'')
         (Some \<lparr>year = 2020, month = 1, day = 1, hour = 12, minute = 30\<rparr>) FNaN FNaN None)"
    unfolding CloseApproach_init_def by simp
  show ?thesis
    using a b
      parse_then_format [of "''2020-01-01 12:30''"
        "\<lparr>year = 2020, month = 1, day = 1, hour = 12, minute = 30\<rparr>"
        "PStr ''433''" "PFloat FNaN" "PFloat FNaN" None
        "CloseApproach (Some ''433'')
           (Some \<lparr>year = 2020, month = 1, day = 1, hour = 12, minute = 30\<rparr>) FNaN FNaN None"]
    by simp
qed

subsection \<open>Stored numbers\<close>

text \<open>
  C9. \<open>NearEarthObject\<close> stores the diameter as it was given, without conversion, so an
  \<open>int\<close> or a \<open>bool\<close> stays what it was; \<open>CloseApproach\<close> stores \<open>float(distance)\<close>
  and \<open>float(velocity)\<close>, also for integers.
\<close>

theorem diameter_kept_distance_converted:
  "(NearEarthObject_init designation0 name0 diameter0 hazardous0 = Inr neo1 \<longrightarrow>
      diameter neo1 = diameter0)
   \<and> (CloseApproach_init designation1 time0 distance0 velocity0 neo0 = Inr ca \<longrightarrow>
      py_float distance0 = Inr (distance ca) \<and> py_float velocity0 = Inr (velocity ca))"
  by (auto simp: NearEarthObject_init_def CloseApproach_init_def split: if_splits sum.splits)

theorem diameter_kept_distance_converted_witness:
  "NearEarthObject_init (PStr ''433'') (PStr ''Eros'') (PInt 17) (PStr ''N'')
     = Inr (NearEarthObject (Some ''433'') (Some ''Eros'') (PInt 17) False [])
   \<and> diameter (NearEarthObject (Some ''433'') (Some ''Eros'') (PInt 17) False []) = PInt 17
   \<and> NearEarthObject_init (PStr ''433'') (PStr ''Eros'') (PBool True) (PStr ''N'')
     = Inr (NearEarthObject (Some ''433'') (Some ''Eros'') (PBool True) False [])
   \<and> diameter (NearEarthObject (Some ''433'') (Some ''Eros'') (PBool True) False []) = PBool True
   \<and> CloseApproach_init (PStr ''433'') (PStr '''') (PInt 3) (PBool True) None
     = Inr (CloseApproach (Some ''433'') None (FNum False 3 0) (FNum False 1 0) None)
   \<and> py_float (PInt 3) = Inr (FNum False 3 0) \<and> py_float (PBool True) = Inr (FNum False 1 0)"
proof -
  have a: "NearEarthObject_init (PStr ''433'') (PStr ''Eros'') (PInt 17) (PStr ''N'')
     = Inr (NearEarthObject (Some ''433'') (Some ''Eros'') (PInt 17) False [])"
    by (simp add: NearEarthObject_init_def)
  have b: "NearEarthObject_init (PStr ''433'') (PStr ''Eros'') (PBool True) (PStr ''N'')
     = Inr (NearEarthObject (Some ''433'') (Some ''Eros'') (PBool True) False [])"
    by (simp add: NearEarthObject_init_def)
  have c: "CloseApproach_init (PStr ''433'') (PStr '''') (PInt 3) (PBool True) None
     = Inr (CloseApproach (Some ''433'') None (FNum False 3 0) (FNum False 1 0) None)"
    by (simp add: CloseApproach_init_def float_of_int_def eval_simps)
  show ?thesis
    using a b c
      diameter_kept_distance_converted [of "PStr ''433''" "PStr ''Eros''" "PInt 17" "PStr ''N''"
        "NearEarthObject (Some ''433'') (Some ''Eros'') (PInt 17) False []"
        "PStr ''433''" "PStr ''''" "PInt 3" "PBool True" None
        "CloseApproach (Some ''433'') None (FNum False 3 0) (FNum False 1 0) None"]
      diameter_kept_distance_converted [of "PStr ''433''" "PStr ''Eros''" "PBool True" "PStr ''N''"
        "NearEarthObject (Some ''433'') (Some ''Eros'') (PBool True) False []"
        "PStr ''433''" "PStr ''''" "PInt 3" "PBool True" None
        "CloseApproach (Some ''433'') None (FNum False 3 0) (FNum False 1 0) None"]
    by (simp del: py_float.simps)
qed

subsection \<open>An absent designation in the full name\<close>

text \<open>
  C10. When the raw designation is the empty string, the stored designation is \<open>None\<close>
  and \<open>fullname\<close> is not empty: it is the text \<open>None\<close>, followed by the name in
  parentheses when a name is present. Both human-readable renderings carry that text.
\<close>

theorem absent_designation_prints_None:
  "NearEarthObject_init (PStr []) (PStr n) diameter0 hazardous0 = Inr neo1 \<Longrightarrow>
     designation neo1 = None
     \<and> fullname neo1 = (if n = [] then ''None'' else ''None ('' @ n @ '')'')
     \<and> fullname neo1 \<noteq> []
     \<and> (\<forall>s. NearEarthObject_str neo1 = Inr s \<longrightarrow> prefix (''NEO '' @ fullname neo1) s)
     \<and> (\<forall>f. diameter0 = PFloat f \<longrightarrow> (\<exists>s. NearEarthObject_str neo1 = Inr s))
     \<and> (\<forall>ca. neo ca = Some neo1 \<longrightarrow>
          (\<exists>rest. CloseApproach_str ca
             = Inr (''On '' @ time_str ca @ '', '' @ [CHR 0x27] @ fullname neo1 @ rest)))"
  by (auto simp: NearEarthObject_init_def fullname_def NearEarthObject_str_def
      CloseApproach_str_def quoted_def prefix_def split: if_splits sum.splits)

theorem absent_designation_prints_None_witness:
  "NearEarthObject_init (PStr '''') (PStr ''Eros'') (PFloat FNaN) (PStr ''N'')
     = Inr (NearEarthObject None (Some ''Eros'') (PFloat FNaN) False [])
   \<and> fullname (NearEarthObject None (Some ''Eros'') (PFloat FNaN) False []) = ''None (Eros)''
   \<and> NearEarthObject_str (NearEarthObject None (Some ''Eros'') (PFloat FNaN) False [])
     = Inr ''NEO None (Eros) has a diameter of nan km and is not potentially hazardous.''
   \<and> CloseApproach_str (CloseApproach None None FNaN FNaN
        (Some (NearEarthObject None (Some ''Eros'') (PFloat FNaN) False [])))
     = Inr (''On , '' @ [CHR 0x27] @ ''None (Eros)'' @ [CHR 0x27]
            @ '' approaches Earth at a distance of self.distance=nan au and a velocity of self.velocity=nan km/s.'')"
proof -
  have a: "NearEarthObject_init (PStr '''') (PStr ''Eros'') (PFloat FNaN) (PStr ''N'')
     = Inr (NearEarthObject None (Some ''Eros'') (PFloat FNaN) False [])"
    by (simp add: NearEarthObject_init_def)
  have b: "NearEarthObject_str (NearEarthObject None (Some ''Eros'') (PFloat FNaN) False [])
     = Inr ''NEO None (Eros) has a diameter of nan km and is not potentially hazardous.''"
    by (simp add: NearEarthObject_str_def fullname_def)
  have c: "CloseApproach_str (CloseApproach None None FNaN FNaN
        (Some (NearEarthObject None (Some ''Eros'') (PFloat FNaN) False [])))
     = Inr (''On , '' @ [CHR 0x27] @ ''None (Eros)'' @ [CHR 0x27]
            @ '' approaches Earth at a distance of self.distance=nan au and a velocity of self.velocity=nan km/s.'')"
    by (simp add: CloseApproach_str_def time_str_def fullname_def quoted_def)
  show ?thesis
    using a b c
      absent_designation_prints_None [of "''Eros''" "PFloat FNaN" "PStr ''N''"
        "NearEarthObject None (Some ''Eros'') (PFloat FNaN) False []"]
    by simp
qed

subsection \<open>The human-readable rendering of an approach\<close>

text \<open>
  C2. The rendering of a linked \<open>CloseApproach\<close> should be the sentence with the time,
  the quoted full name, the distance and the velocity to two decimals, and no other
  text. On the end-to-end example the method returns a sentence with \<open>self.distance=\<close>
  and \<open>self.velocity=\<close> before the two numbers, which is not that sentence.
\<close>

theorem CloseApproach_str_example:
  "NearEarthObject_init (PStr ''433'') (PStr ''Eros'')
     (PFloat (FNum False 4740038607807447 (- 48))) (PStr ''N'') = Inr example_neo
   \<and> CloseApproach_init (PStr ''433'') (PStr ''2020-06-01 00:00'')
       (PFloat (FNum False 8106479329266893 (- 54)))
       (PFloat (FNum False 8106479329266893 (- 50))) (Some example_neo) = Inr example_approach
   \<and> fullname example_neo = ''433 (Eros)''
   \<and> CloseApproach_str example_approach
       = Inr (''On 2020-06-01 00:00, '' @ [CHR 0x27] @ ''433 (Eros)'' @ [CHR 0x27]
              @ '' approaches Earth at a distance of self.distance=0.45 au and a velocity of self.velocity=7.20 km/s.'')
   \<and> CloseApproach_str example_approach
       \<noteq> Inr (''On 2020-06-01 00:00, '' @ [CHR 0x27] @ ''433 (Eros)'' @ [CHR 0x27]
              @ '' approaches Earth at a distance of 0.45 au and a velocity of 7.20 km/s.'')"
proof -
  have neo: "NearEarthObject_init (PStr ''433'') (PStr ''Eros'')
     (PFloat (FNum False 4740038607807447 (- 48))) (PStr ''N'') = Inr example_neo"
    by (simp add: NearEarthObject_init_def example_neo_def)
  have "time_or_none (PStr ''2020-06-01 00:00'')
      = Inr (Some \<lparr>year = 2020, month = 6, day = 1, hour = 0, minute = 0\<rparr>)"
    unfolding time_or_none.simps example_time by simp
  then have ca: "CloseApproach_init (PStr ''433'') (PStr ''2020-06-01 00:00'')
       (PFloat (FNum False 8106479329266893 (- 54)))
       (PFloat (FNum False 8106479329266893 (- 50))) (Some example_neo) = Inr example_approach"
    unfolding CloseApproach_init_def example_approach_def by simp
  have fn: "fullname example_neo = ''433 (Eros)''"
    by (simp add: fullname_def example_neo_def)
  have d: "float_format_f 2 (FNum False 8106479329266893 (- 54)) = ''0.45''"
    by (simp add: eval_simps)
  have v: "float_format_f 2 (FNum False 8106479329266893 (- 50)) = ''7.20''"
    by (simp add: eval_simps)
  have ts: "time_str example_approach = ''2020-06-01 00:00''"
    using example_time_str by (simp add: time_str_def example_approach_def)
  have s: "CloseApproach_str example_approach
       = Inr (''On 2020-06-01 00:00, '' @ [CHR 0x27] @ ''433 (Eros)'' @ [CHR 0x27]
              @ '' approaches Earth at a distance of self.distance=0.45 au and a velocity of self.velocity=7.20 km/s.'')"
  proof -
    have sel: "neo example_approach = Some example_neo"
      "distance example_approach = FNum False 8106479329266893 (- 54)"
      "velocity example_approach = FNum False 8106479329266893 (- 50)"
      by (simp_all add: example_approach_def)
    show ?thesis
      unfolding CloseApproach_str_def ts sel d v quoted_def by (simp add: fn)
  qed
  have n: "CloseApproach_str example_approach
       \<noteq> Inr (''On 2020-06-01 00:00, '' @ [CHR 0x27] @ ''433 (Eros)'' @ [CHR 0x27]
              @ '' approaches Earth at a distance of 0.45 au and a velocity of 7.20 km/s.'')"
    unfolding s by simp
  from neo ca fn s n show ?thesis by (intro conjI)
qed

subsection \<open>Missing values\<close>

text \<open>
  C3, amended. For every construction from strings that may be empty and floats that
  may be not-a-number, construction succeeds, \<open>fullname\<close> and \<open>time_str\<close> are strings,
  and both renderings of the \<open>NearEarthObject\<close> and the debug rendering of the
  \<open>CloseApproach\<close> return strings. The human-readable rendering of the
  \<open>CloseApproach\<close> returns a string when a \<open>neo\<close> is linked and raises
  \<open>AttributeError\<close> when \<open>neo\<close> is absent.
\<close>

theorem missing_values_render:
  "is_bool_or_str hazardous0 \<Longrightarrow> t = [] \<or> (\<exists>dt. cd_to_datetime t = Inr dt) \<Longrightarrow>
     \<exists>neo1 ca0 ca1.
       NearEarthObject_init (PStr d) (PStr n) (PFloat f) hazardous0 = Inr neo1
       \<and> (\<exists>s. NearEarthObject_str neo1 = Inr s)
       \<and> (\<exists>s. NearEarthObject_repr neo1 = Inr s)
       \<and> CloseApproach_init (PStr d') (PStr t) (PFloat fd) (PFloat fv) None = Inr ca0
       \<and> (t = [] \<longrightarrow> time_str ca0 = [])
       \<and> CloseApproach_str ca0 = Inl AttributeError
       \<and> (\<exists>s. CloseApproach_repr ca0 = Inr s)
       \<and> CloseApproach_init (PStr d') (PStr t) (PFloat fd) (PFloat fv) (Some neo1) = Inr ca1
       \<and> (\<exists>s. CloseApproach_str ca1 = Inr s)
       \<and> (\<exists>s. CloseApproach_repr ca1 = Inr s)"
  by (auto simp: NearEarthObject_init_def NearEarthObject_str_def NearEarthObject_repr_def
      CloseApproach_init_def CloseApproach_str_def CloseApproach_repr_def time_str_def)

theorem missing_values_render_witness:
  "NearEarthObject_init (PStr '''') (PStr '''') (PFloat FNaN) (PStr '''')
     = Inr (NearEarthObject None None (PFloat FNaN) False [])
   \<and> fullname (NearEarthObject None None (PFloat FNaN) False []) = ''None''
   \<and> NearEarthObject_str (NearEarthObject None None (PFloat FNaN) False [])
     = Inr ''NEO None has a diameter of nan km and is not potentially hazardous.''
   \<and> NearEarthObject_repr (NearEarthObject None None (PFloat FNaN) False [])
     = Inr ''NearEarthObject(self.designation=None, self.name=None, self.diameter=nan, self.hazardous=False)''
   \<and> CloseApproach_init (PStr '''') (PStr '''') (PFloat FNaN) (PFloat FNaN) None
     = Inr (CloseApproach None None FNaN FNaN None)
   \<and> time_str (CloseApproach None None FNaN FNaN None) = ''''
   \<and> CloseApproach_repr (CloseApproach None None FNaN FNaN None)
     = Inr (''CloseApproach(time='' @ [CHR 0x27, CHR 0x27]
            @ '', distance=nan, velocity=nan, neo=None)'')
   \<and> CloseApproach_str (CloseApproach None None FNaN FNaN
        (Some (NearEarthObject None None (PFloat FNaN) False [])))
     = Inr (''On , '' @ [CHR 0x27] @ ''None'' @ [CHR 0x27]
            @ '' approaches Earth at a distance of self.distance=nan au and a velocity of self.velocity=nan km/s.'')"
  using missing_values_render [of "PStr ''''" "''''" "''''" "''''" FNaN "''''" FNaN FNaN]
  by (simp add: NearEarthObject_init_def NearEarthObject_str_def NearEarthObject_repr_def
      CloseApproach_init_def CloseApproach_str_def CloseApproach_repr_def time_str_def
      fullname_def quoted_def py_repr_bool_def py_repr_str_def Let_def)

text \<open>
  C3 as stated fails: the approach constructed from missing values only, with no
  \<open>neo\<close>, has no human-readable rendering.
\<close>

theorem missing_values_render_counterexample:
  "CloseApproach_init (PStr '''') (PStr '''') (PFloat FNaN) (PFloat FNaN) None
     = Inr (CloseApproach None None FNaN FNaN None)
   \<and> CloseApproach_str (CloseApproach None None FNaN FNaN None) = Inl AttributeError"
  by (simp add: CloseApproach_init_def CloseApproach_str_def)

subsection \<open>The errors of construction\<close>

text \<open>
  C5, amended. Both constructors raise \<open>TypeError\<close> exactly when a field has the wrong
  runtime type: for \<open>NearEarthObject\<close> a designation or name that is not a \<open>str\<close>, a
  diameter that is not a \<open>float\<close> or \<open>int\<close>, a hazardous marker that is not a \<open>bool\<close> or
  \<open>str\<close>; for \<open>CloseApproach\<close> a designation or time that is not a \<open>str\<close>, a distance
  or velocity that is not a number. \<open>NearEarthObject\<close> raises nothing else. With
  well-typed fields \<open>CloseApproach\<close> can still fail in two ways: the error of
  \<open>cd_to_datetime\<close> on a non-empty time string that it rejects, and \<open>OverflowError\<close>
  when an integer distance or velocity is too large for \<open>float\<close>.
\<close>

theorem construction_errors:
  "((\<exists>msg. NearEarthObject_init designation0 name0 diameter0 hazardous0 = Inl (TypeError msg))
      \<longleftrightarrow> \<not> (is_str designation0 \<and> is_str name0 \<and> is_number diameter0
              \<and> is_bool_or_str hazardous0))
   \<and> (\<forall>e. NearEarthObject_init designation0 name0 diameter0 hazardous0 = Inl e
         \<longrightarrow> (\<exists>msg. e = TypeError msg))
   \<and> ((\<exists>msg. CloseApproach_init designation1 time0 distance0 velocity0 neo0 = Inl (TypeError msg))
      \<longleftrightarrow> \<not> (is_str designation1 \<and> is_str time0 \<and> is_number distance0
              \<and> is_number velocity0))
   \<and> (CloseApproach_init designation1 time0 distance0 velocity0 neo0 = Inl ValueError
      \<longleftrightarrow> is_str designation1 \<and> is_str time0 \<and> is_number distance0 \<and> is_number velocity0
          \<and> (\<exists>s. time0 = PStr s \<and> s \<noteq> [] \<and> cd_to_datetime s = Inl ValueError))
   \<and> (CloseApproach_init designation1 time0 distance0 velocity0 neo0 = Inl OverflowError
      \<longleftrightarrow> is_str designation1 \<and> is_str time0 \<and> is_number distance0 \<and> is_number velocity0
          \<and> (\<exists>s. time0 = PStr s \<and> (s = [] \<or> (\<exists>dt. cd_to_datetime s = Inr dt)))
          \<and> (py_float distance0 = Inl OverflowError \<or> py_float velocity0 = Inl OverflowError))
   \<and> (\<forall>e. CloseApproach_init designation1 time0 distance0 velocity0 neo0 = Inl e
         \<longrightarrow> (\<exists>msg. e = TypeError msg) \<or> e = ValueError \<or> e = OverflowError)"
proof -
  have neo_type: "(\<exists>msg. NearEarthObject_init designation0 name0 diameter0 hazardous0
        = Inl (TypeError msg))
      \<longleftrightarrow> \<not> (is_str designation0 \<and> is_str name0 \<and> is_number diameter0
              \<and> is_bool_or_str hazardous0)"
    by (auto simp: NearEarthObject_init_def)
  have neo_only: "\<forall>e. NearEarthObject_init designation0 name0 diameter0 hazardous0 = Inl e
         \<longrightarrow> (\<exists>msg. e = TypeError msg)"
    by (auto simp: NearEarthObject_init_def split: if_splits)
  show ?thesis
  proof (cases "is_str designation1 \<and> is_str time0 \<and> is_number distance0
      \<and> is_number velocity0")
    case False
    then have "\<exists>msg. CloseApproach_init designation1 time0 distance0 velocity0 neo0
        = Inl (TypeError msg)"
      by (auto simp: CloseApproach_init_def)
    then show ?thesis using False neo_type neo_only by auto
  next
    case True
    then have eq: "CloseApproach_init designation1 time0 distance0 velocity0 neo0 =
        (case time_or_none time0 of
           Inl e \<Rightarrow> Inl e
         | Inr t \<Rightarrow>
             (case py_float distance0 of
                Inl e \<Rightarrow> Inl e
              | Inr d \<Rightarrow>
                  (case py_float velocity0 of
                     Inl e \<Rightarrow> Inl e
                   | Inr v \<Rightarrow> Inr (CloseApproach (str_or_none designation1) t d v neo0))))"
      by (simp add: CloseApproach_init_def)
    have d: "\<And>e. py_float distance0 = Inl e \<Longrightarrow> e = OverflowError"
      using True by (auto dest: py_float_error)
    have v: "\<And>e. py_float velocity0 = Inl e \<Longrightarrow> e = OverflowError"
      using True by (auto dest: py_float_error)
    have t: "\<And>e. time_or_none time0 = Inl e \<Longrightarrow> e = ValueError"
      by (rule time_or_none_error)
    have tv: "(\<exists>s. time0 = PStr s \<and> s \<noteq> [] \<and> cd_to_datetime s = Inl ValueError)
        \<longleftrightarrow> time_or_none time0 = Inl ValueError"
      using True by (simp add: time_or_none_Inl_iff)
    have tr: "(\<exists>s. time0 = PStr s \<and> (s = [] \<or> (\<exists>dt. cd_to_datetime s = Inr dt)))
        \<longleftrightarrow> (\<exists>t. time_or_none time0 = Inr t)"
      using True by (simp add: time_or_none_Inr_iff)
    show ?thesis
      unfolding tv tr
      using True neo_type neo_only d v t unfolding eq
      by (auto split: sum.splits)
  qed
qed

theorem construction_errors_witness:
  "NearEarthObject_init (PStr ''433'') (PStr ''Eros'') (PStr ''16.84'') (PStr ''N'')
     = Inl (TypeError (quoted ''diameter'' @ '' must be a number.''))
   \<and> \<not> is_number (PStr ''16.84'')
   \<and> CloseApproach_init (PStr ''433'') (PStr ''2020-Jan-01 12:30'') (PFloat FNaN) (PFloat FNaN)
        None = Inl ValueError
   \<and> cd_to_datetime ''2020-Jan-01 12:30'' = Inl ValueError"
  using construction_errors [of "PStr ''433''" "PStr ''Eros''" "PStr ''16.84''" "PStr ''N''"
      "PStr ''433''" "PStr ''2020-Jan-01 12:30''" "PFloat FNaN" "PFloat FNaN" None]
  by (simp add: NearEarthObject_init_def CloseApproach_init_def)

text \<open>
  C5 as stated fails: every field of this construction has the declared type, and it
  raises \<open>OverflowError\<close>, which is not the type error.
\<close>

theorem construction_errors_counterexample:
  "is_str (PStr ''433'') \<and> is_str (PStr '''') \<and> is_number (PInt (2 ^ 1024))
   \<and> is_number (PFloat FNaN)
   \<and> CloseApproach_init (PStr ''433'') (PStr '''') (PInt (2 ^ 1024)) (PFloat FNaN) None
       = Inl OverflowError"
  unfolding CloseApproach_init_def py_float.simps float_of_int_2_1024
  by simp

end
